theory Spec2Isabelle
  imports Main "HOL-Library.Sublist"
begin

section \<open>The Azure OpenAI utility module (api/utils/azureUtils.js)\<close>

text \<open>
  The module has five exported functions: \<open>sanitizeModelName\<close>, \<open>genAzureEndpoint\<close>,
  \<open>genAzureChatCompletion\<close>, \<open>getAzureCredentials\<close> and \<open>sendChatMessage\<close>. JavaScript
  strings are modelled as \<^typ>\<open>string\<close>, a value that may be \<open>undefined\<close> as an
  \<^typ>\<open>'a option\<close>, a thrown exception as the left summand of a sum type, console output
  as the list of entries a call emits, and the one \<open>await\<close> of \<open>sendChatMessage\<close> as a
  promise that is either settled or waiting for the HTTP client.
\<close>

subsection \<open>JavaScript values, responses and errors\<close>

text \<open>\<open>!x\<close> for a value that is a string or \<open>undefined\<close>: true for \<open>undefined\<close> and for the
  empty string.\<close>

fun js_falsy :: "string option \<Rightarrow> bool" where
  "js_falsy None = True"
| "js_falsy (Some s) = (s = [])"

text \<open>\<open>${x}\<close> in a template literal: a string is inserted as it is, \<open>undefined\<close> as the
  text \<open>undefined\<close>.\<close>

fun js_template :: "string option \<Rightarrow> string" where
  "js_template None = ''undefined''"
| "js_template (Some s) = s"

text \<open>The response object of the HTTP client: \<open>response.data\<close> is the decoded body, of a
  type \<open>'b\<close> the module never looks into.\<close>

record 'b axios_response =
  data :: 'b
  status :: nat
  headers :: "(string \<times> string) list"

text \<open>The values the module throws or re-throws: its own \<open>new Error(message)\<close>, and the
  error object the HTTP client rejects with, which has a \<open>message\<close>, a \<open>response\<close> when the
  server answered and a \<open>request\<close> (of a type \<open>'r\<close>) when the request was sent. A property
  an error object does not have reads as \<open>undefined\<close>.\<close>

datatype ('b, 'r) js_error =
    Error string
  | AxiosError string "'b axios_response option" "'r option"

fun error_message :: "('b, 'r) js_error \<Rightarrow> string" where
  "error_message (Error m) = m"
| "error_message (AxiosError m resp req) = m"

fun error_response :: "('b, 'r) js_error \<Rightarrow> 'b axios_response option" where
  "error_response (Error m) = None"
| "error_response (AxiosError m resp req) = resp"

fun error_request :: "('b, 'r) js_error \<Rightarrow> 'r option" where
  "error_request (Error m) = None"
| "error_request (AxiosError m resp req) = req"

subsection \<open>sanitizeModelName\<close>

text \<open>\<open>modelName.replace(/\./g, '')\<close>: the pattern matches one literal period, the global flag
  replaces every match from left to right, the replacement is empty.\<close>

fun sanitizeModelName :: "string \<Rightarrow> string" where
  "sanitizeModelName [] = []"
| "sanitizeModelName (c # cs) =
     (if c = CHR ''.'' then sanitizeModelName cs else c # sanitizeModelName cs)"

subsection \<open>genAzureEndpoint\<close>

text \<open>The parameter object is destructured into its two fields; a field the caller left
  out is \<open>undefined\<close>.\<close>

definition genAzureEndpoint ::
  "string option \<Rightarrow> string option \<Rightarrow> ('b, 'r) js_error + string" where
  "genAzureEndpoint azureOpenAIApiInstanceName azureOpenAIApiDeploymentName =
     (if js_falsy azureOpenAIApiInstanceName \<or> js_falsy azureOpenAIApiDeploymentName
      then Inl (Error ''Azure OpenAI API instance name and deployment name must be provided.'')
      else Inr (''https://'' @ js_template azureOpenAIApiInstanceName
                @ ''.openai.azure.com/openai/deployments/''
                @ js_template azureOpenAIApiDeploymentName))"

subsection \<open>Credentials, the environment and console output\<close>

text \<open>The \<open>AzureCredentials\<close> object. Each property is the value of an environment
  variable, which is a string or \<open>undefined\<close>.\<close>

record AzureCredentials =
  azureOpenAIApiKey :: "string option"
  azureOpenAIApiInstanceName :: "string option"
  azureOpenAIApiDeploymentName :: "string option"
  azureOpenAIApiVersion :: "string option"

text \<open>\<open>process.env\<close>: a variable that is not set reads as \<open>undefined\<close>.\<close>

type_synonym process_env = "string \<Rightarrow> string option"

text \<open>One call of \<open>console.log\<close> or \<open>console.error\<close>, with its arguments.\<close>

datatype ('b, 'r) console_value =
    VString string
  | VCredentials AzureCredentials
  | VData 'b
  | VStatus nat
  | VHeaders "(string \<times> string) list"
  | VRequest 'r

datatype ('b, 'r) console_entry =
    ConsoleLog "('b, 'r) console_value list"
  | ConsoleError "('b, 'r) console_value list"

subsection \<open>genAzureChatCompletion\<close>

text \<open>The template literal calls \<open>genAzureEndpoint\<close> first: when that throws, nothing is
  logged.\<close>

definition genAzureChatCompletion ::
  "AzureCredentials \<Rightarrow> (('b, 'r) js_error + string) \<times> ('b, 'r) console_entry list" where
  "genAzureChatCompletion credentials =
     (case genAzureEndpoint (azureOpenAIApiInstanceName credentials)
             (azureOpenAIApiDeploymentName credentials) of
        Inl e \<Rightarrow> (Inl e, [])
      | Inr base \<Rightarrow>
          (let endpoint = base @ ''/chat/completions?api-version=''
                            @ js_template (azureOpenAIApiVersion credentials)
           in (Inr endpoint, [ConsoleLog [VString (''Generated Endpoint: '' @ endpoint)]])))"

subsection \<open>getAzureCredentials\<close>

definition getAzureCredentials ::
  "process_env \<Rightarrow> (('b, 'r) js_error + AzureCredentials) \<times> ('b, 'r) console_entry list" where
  "getAzureCredentials env =
     (let credentials =
            \<lparr> azureOpenAIApiKey = env ''AZURE_API_KEY'',
              azureOpenAIApiInstanceName = env ''AZURE_OPENAI_API_INSTANCE_NAME'',
              azureOpenAIApiDeploymentName = env ''AZURE_OPENAI_API_DEPLOYMENT_NAME'',
              azureOpenAIApiVersion = env ''AZURE_OPENAI_API_VERSION'' \<rparr>
      in if js_falsy (azureOpenAIApiKey credentials)
            \<or> js_falsy (azureOpenAIApiInstanceName credentials)
            \<or> js_falsy (azureOpenAIApiDeploymentName credentials)
            \<or> js_falsy (azureOpenAIApiVersion credentials)
         then (Inl (Error ''Invalid environment configuration.''),
               [ConsoleError
                  [VString ''One or more environment variables are missing or invalid:'',
                   VCredentials credentials]])
         else (Inr credentials, []))"

subsection \<open>sendChatMessage\<close>

text \<open>\<open>axios.post(url, data, {headers})\<close>: the one request the module can issue. The
  message is of a type \<open>'m\<close> the module never looks into.\<close>

datatype 'm axios_call = Post string 'm "(string \<times> string) list"

text \<open>The promise an \<open>async\<close> function returns, as it stands when the call returns: already
  settled (\<open>Inl\<close> rejected, \<open>Inr\<close> fulfilled), or suspended at its \<open>await\<close> of the request
  it has issued, with the rest of the function as a continuation of what the HTTP client
  settles with (\<open>Inl\<close> the error it rejects with, \<open>Inr\<close> the response it fulfils with).
  The function has a single \<open>await\<close>, so the continuation ends in a settlement.\<close>

datatype ('m, 'b, 'r) promise =
    Settled "('b, 'r) js_error + 'b"
  | Awaiting "'m axios_call"
      "(('b, 'r) js_error + 'b axios_response)
         \<Rightarrow> (('b, 'r) js_error + 'b) \<times> ('b, 'r) console_entry list"

text \<open>The function from the \<open>await\<close> on: the rest of the \<open>try\<close> block when the client
  fulfils, the \<open>catch\<close> block when it rejects.\<close>

fun sendChatMessage_resume ::
  "(('b, 'r) js_error + 'b axios_response)
     \<Rightarrow> (('b, 'r) js_error + 'b) \<times> ('b, 'r) console_entry list" where
  "sendChatMessage_resume (Inr response) =
     (Inr (data response), [ConsoleLog [VString ''Response:'', VData (data response)]])"
| "sendChatMessage_resume (Inl error) =
     (Inl error,
      ConsoleError
        [VString ''Error sending chat message:'',
         (case error_response error of
            Some r \<Rightarrow> VData (data r)
          | None \<Rightarrow> VString (error_message error))]
      # (case error_response error of
           Some r \<Rightarrow>
             [ConsoleError [VData (data r)],
              ConsoleError [VStatus (status r)],
              ConsoleError [VHeaders (headers r)]]
         | None \<Rightarrow>
             (case error_request error of
                Some q \<Rightarrow> [ConsoleError [VRequest q]]
              | None \<Rightarrow> [ConsoleError [VString ''Error'', VString (error_message error)]])))"

text \<open>The function up to the \<open>await\<close>. The two configuration calls stand before the
  \<open>try\<close>, so what they throw rejects the promise at once.\<close>

definition sendChatMessage ::
  "process_env \<Rightarrow> 'm \<Rightarrow> ('m, 'b, 'r) promise \<times> ('b, 'r) console_entry list" where
  "sendChatMessage env message =
     (case getAzureCredentials env of
        (Inl e, out1) \<Rightarrow> (Settled (Inl e), out1)
      | (Inr credentials, out1) \<Rightarrow>
          (case genAzureChatCompletion credentials of
             (Inl e, out2) \<Rightarrow> (Settled (Inl e), out1 @ out2)
           | (Inr endpoint, out2) \<Rightarrow>
               (Awaiting
                  (Post endpoint message
                     [(''Content-Type'', ''application/json''),
                      (''Authorization'',
                       ''Bearer '' @ js_template (azureOpenAIApiKey credentials))])
                  sendChatMessage_resume,
                out1 @ out2)))"

subsection \<open>Example values\<close>

text \<open>A tree of JSON values, for the payloads of the examples, and an environment with
  the four variables set.\<close>

datatype json =
    JNull
  | JBool bool
  | JNumber int
  | JString string
  | JArray "json list"
  | JObject "(string \<times> json) list"

definition example_env :: process_env where
  "example_env =
     [''AZURE_API_KEY'' \<mapsto> ''x'',
      ''AZURE_OPENAI_API_INSTANCE_NAME'' \<mapsto> ''foo'',
      ''AZURE_OPENAI_API_DEPLOYMENT_NAME'' \<mapsto> ''bar'',
      ''AZURE_OPENAI_API_VERSION'' \<mapsto> ''2023-05-15'']"

definition example_message :: json where
  "example_message =
     JObject [(''messages'',
       JArray [JObject [(''role'', JString ''user''), (''content'', JString ''Hello'')]])]"

definition example_body :: json where
  "example_body = JObject [(''choices'', JArray [])]"

section \<open>Properties\<close>

text \<open>The specification names two kinds of failure. Its \<open>ConfigurationError\<close> is the
  \<open>Error\<close> that \<open>genAzureEndpoint\<close> and \<open>getAzureCredentials\<close> throw; its \<open>RequestError\<close> is
  the error the HTTP client rejects with, which \<open>sendChatMessage\<close> throws again.\<close>

subsection \<open>sanitizeModelName\<close>

lemma sanitizeModelName_filter:
  "sanitizeModelName s = filter (\<lambda>c. c \<noteq> CHR ''.'') s"
  by (induction s) simp_all

lemma sanitizeModelName_length:
  "length (sanitizeModelName s) + count_list s (CHR ''.'') = length s"
  by (induction s) simp_all

text \<open>C7. For every string, the result of \<open>sanitizeModelName\<close> contains no period, its
  length is the length of the input minus the number of periods in the input, and it is
  the input with the periods removed and nothing else changed; in particular
  \<open>gpt-3.5.turbo\<close> becomes \<open>gpt-35turbo\<close>.\<close>

theorem sanitizeModelName_removes_periods:
  "CHR ''.'' \<notin> set (sanitizeModelName s)
   \<and> length (sanitizeModelName s) = length s - count_list s (CHR ''.'')
   \<and> sanitizeModelName s = filter (\<lambda>c. c \<noteq> CHR ''.'') s
   \<and> sanitizeModelName ''gpt-3.5.turbo'' = ''gpt-35turbo''"
proof -
  have "CHR ''.'' \<notin> set (sanitizeModelName s)"
    by (simp add: sanitizeModelName_filter)
  moreover have "length (sanitizeModelName s) = length s - count_list s (CHR ''.'')"
    using sanitizeModelName_length [of s] by arith
  moreover have "sanitizeModelName ''gpt-3.5.turbo'' = ''gpt-35turbo''"
    by simp
  ultimately show ?thesis
    using sanitizeModelName_filter [of s] by blast
qed

theorem sanitizeModelName_removes_periods_witness:
  "CHR ''.'' \<notin> set (sanitizeModelName ''v1.2..3'')
   \<and> length (sanitizeModelName ''v1.2..3'') = 4
   \<and> sanitizeModelName ''v1.2..3'' = ''v123''"
  using sanitizeModelName_removes_periods [of "''v1.2..3''"] by simp

text \<open>C10. \<open>sanitizeModelName\<close> is idempotent, and its output is the subsequence of the
  input obtained by deleting exactly the periods: it is a subsequence of the input, it
  has the non-period characters of the input in their order, and it has no period.\<close>

theorem sanitizeModelName_idempotent_subseq:
  "sanitizeModelName (sanitizeModelName s) = sanitizeModelName s
   \<and> subseq (sanitizeModelName s) s
   \<and> filter (\<lambda>c. c \<noteq> CHR ''.'') (sanitizeModelName s) = filter (\<lambda>c. c \<noteq> CHR ''.'') s
   \<and> count_list (sanitizeModelName s) (CHR ''.'') = 0"
  by (simp add: sanitizeModelName_filter count_list_0_iff)

theorem sanitizeModelName_idempotent_subseq_witness:
  "sanitizeModelName (sanitizeModelName ''gpt-3.5.turbo'') = ''gpt-35turbo''
   \<and> subseq ''gpt-35turbo'' ''gpt-3.5.turbo''"
  using sanitizeModelName_idempotent_subseq [of "''gpt-3.5.turbo''"] by simp

subsection \<open>genAzureEndpoint\<close>

text \<open>C4. For non-empty strings \<open>i\<close> and \<open>d\<close>, \<open>genAzureEndpoint\<close> returns exactly
  \<open>https://i.openai.azure.com/openai/deployments/d\<close>; when either input is empty or
  absent it throws its error and returns no string.\<close>

theorem genAzureEndpoint_spec:
  "(i \<noteq> [] \<and> d \<noteq> [] \<longrightarrow>
      (genAzureEndpoint (Some i) (Some d) :: ('b, 'r) js_error + string)
        = Inr (''https://'' @ i @ ''.openai.azure.com/openai/deployments/'' @ d))
   \<and> (a = None \<or> a = Some [] \<or> b = None \<or> b = Some [] \<longrightarrow>
      (genAzureEndpoint a b :: ('b, 'r) js_error + string)
        = Inl (Error ''Azure OpenAI API instance name and deployment name must be provided.''))"
  by (auto simp: genAzureEndpoint_def)

theorem genAzureEndpoint_spec_witness:
  "(genAzureEndpoint (Some ''foo'') (Some ''bar'') :: (json, unit) js_error + string)
     = Inr ''https://foo.openai.azure.com/openai/deployments/bar''
   \<and> (genAzureEndpoint (Some []) (Some ''bar'') :: (json, unit) js_error + string)
     = Inl (Error ''Azure OpenAI API instance name and deployment name must be provided.'')
   \<and> (genAzureEndpoint (Some ''foo'') None :: (json, unit) js_error + string)
     = Inl (Error ''Azure OpenAI API instance name and deployment name must be provided.'')"
  using
    genAzureEndpoint_spec
      [where ?'b = json and ?'r = unit, of "''foo''" "''bar''" "Some []" "Some ''bar''"]
    genAzureEndpoint_spec
      [where ?'b = json and ?'r = unit, of "''foo''" "''bar''" "Some ''foo''" None]
  by simp

subsection \<open>genAzureChatCompletion\<close>

text \<open>C5. For every credentials object, \<open>genAzureChatCompletion\<close> is \<open>genAzureEndpoint\<close>
  of the instance and deployment names with \<open>/chat/completions?api-version=\<close> and the API
  version appended; it throws exactly when \<open>genAzureEndpoint\<close> throws, that is when the
  instance or the deployment name is empty or absent, and then throws the same error; the
  API version is not validated: whatever string it is, the empty one too, it is inserted
  as it is.\<close>

theorem genAzureChatCompletion_spec:
  "(fst (genAzureChatCompletion c) :: ('b, 'r) js_error + string)
     = (case genAzureEndpoint (azureOpenAIApiInstanceName c) (azureOpenAIApiDeploymentName c) of
          Inl e \<Rightarrow> Inl e
        | Inr base \<Rightarrow>
            Inr (base @ ''/chat/completions?api-version='' @ js_template (azureOpenAIApiVersion c)))
   \<and> ((\<exists>e :: ('b, 'r) js_error. fst (genAzureChatCompletion c) = Inl e)
        \<longleftrightarrow> (\<exists>e :: ('b, 'r) js_error.
              genAzureEndpoint (azureOpenAIApiInstanceName c) (azureOpenAIApiDeploymentName c)
                = Inl e))
   \<and> ((\<exists>e :: ('b, 'r) js_error. fst (genAzureChatCompletion c) = Inl e)
        \<longleftrightarrow> azureOpenAIApiInstanceName c = None \<or> azureOpenAIApiInstanceName c = Some []
            \<or> azureOpenAIApiDeploymentName c = None \<or> azureOpenAIApiDeploymentName c = Some [])
   \<and> (\<forall>v base.
         azureOpenAIApiVersion c = Some v
         \<and> (genAzureEndpoint (azureOpenAIApiInstanceName c) (azureOpenAIApiDeploymentName c)
              :: ('b, 'r) js_error + string) = Inr base
         \<longrightarrow> (fst (genAzureChatCompletion c) :: ('b, 'r) js_error + string)
               = Inr (base @ ''/chat/completions?api-version='' @ v))"
proof -
  have falsy: "js_falsy x \<longleftrightarrow> x = None \<or> x = Some []" for x
    by (cases x) simp_all
  show ?thesis
    by (auto simp: genAzureChatCompletion_def genAzureEndpoint_def Let_def falsy
        split: sum.splits)
qed

theorem genAzureChatCompletion_spec_witness:
  "fst (genAzureChatCompletion
          \<lparr> azureOpenAIApiKey = Some ''x'', azureOpenAIApiInstanceName = Some ''foo'',
            azureOpenAIApiDeploymentName = Some ''bar'',
            azureOpenAIApiVersion = Some ''2023-05-15'' \<rparr>)
     = (Inr ''https://foo.openai.azure.com/openai/deployments/bar/chat/completions?api-version=2023-05-15''
          :: (json, unit) js_error + string)
   \<and> fst (genAzureChatCompletion
          \<lparr> azureOpenAIApiKey = Some ''x'', azureOpenAIApiInstanceName = Some ''foo'',
            azureOpenAIApiDeploymentName = Some ''bar'',
            azureOpenAIApiVersion = Some [] \<rparr>)
     = (Inr ''https://foo.openai.azure.com/openai/deployments/bar/chat/completions?api-version=''
          :: (json, unit) js_error + string)
   \<and> fst (genAzureChatCompletion
          \<lparr> azureOpenAIApiKey = Some ''x'', azureOpenAIApiInstanceName = Some [],
            azureOpenAIApiDeploymentName = Some ''bar'',
            azureOpenAIApiVersion = Some ''2023-05-15'' \<rparr>)
     = (Inl (Error ''Azure OpenAI API instance name and deployment name must be provided.'')
          :: (json, unit) js_error + string)"
  using
    genAzureChatCompletion_spec
      [where ?'b = json and ?'r = unit,
       of "\<lparr> azureOpenAIApiKey = Some ''x'', azureOpenAIApiInstanceName = Some ''foo'',
              azureOpenAIApiDeploymentName = Some ''bar'',
              azureOpenAIApiVersion = Some ''2023-05-15'' \<rparr>"]
    genAzureChatCompletion_spec
      [where ?'b = json and ?'r = unit,
       of "\<lparr> azureOpenAIApiKey = Some ''x'', azureOpenAIApiInstanceName = Some ''foo'',
              azureOpenAIApiDeploymentName = Some ''bar'',
              azureOpenAIApiVersion = Some [] \<rparr>"]
    genAzureChatCompletion_spec
      [where ?'b = json and ?'r = unit,
       of "\<lparr> azureOpenAIApiKey = Some ''x'', azureOpenAIApiInstanceName = Some [],
              azureOpenAIApiDeploymentName = Some ''bar'',
              azureOpenAIApiVersion = Some ''2023-05-15'' \<rparr>"]
  by (simp add: genAzureEndpoint_def)

text \<open>C8, as the specification has it: the URL carries \<open>sanitizeModelName\<close> of the
  deployment name, so its deployment path segment has no period. It does not: for the
  deployment name \<open>gpt-3.5-turbo\<close> the segment is \<open>gpt-3.5-turbo\<close>, period included.\<close>

theorem genAzureChatCompletion_not_sanitized:
  "fst (genAzureChatCompletion
          \<lparr> azureOpenAIApiKey = Some ''x'', azureOpenAIApiInstanceName = Some ''foo'',
            azureOpenAIApiDeploymentName = Some ''gpt-3.5-turbo'',
            azureOpenAIApiVersion = Some ''2023-05-15'' \<rparr>)
     = (Inr (''https://foo.openai.azure.com/openai/deployments/'' @ ''gpt-3.5-turbo''
             @ ''/chat/completions?api-version=2023-05-15'')
          :: (json, unit) js_error + string)
   \<and> CHR ''.'' \<in> set ''gpt-3.5-turbo''
   \<and> fst (genAzureChatCompletion
          \<lparr> azureOpenAIApiKey = Some ''x'', azureOpenAIApiInstanceName = Some ''foo'',
            azureOpenAIApiDeploymentName = Some ''gpt-3.5-turbo'',
            azureOpenAIApiVersion = Some ''2023-05-15'' \<rparr>)
     \<noteq> (Inr (''https://foo.openai.azure.com/openai/deployments/''
             @ sanitizeModelName ''gpt-3.5-turbo''
             @ ''/chat/completions?api-version=2023-05-15'')
          :: (json, unit) js_error + string)"
  by (simp add: genAzureChatCompletion_def genAzureEndpoint_def Let_def)

lemma sanitizeModelName_id_iff:
  "sanitizeModelName d = d \<longleftrightarrow> CHR ''.'' \<notin> set d"
  by (auto simp: sanitizeModelName_filter filter_id_conv)

text \<open>C8, amended. \<open>genAzureChatCompletion\<close> puts the deployment name of the credentials
  into the path segment as it is, without applying \<open>sanitizeModelName\<close>: the URL is the
  one built from the sanitized name exactly when the deployment name has no period.\<close>

theorem genAzureChatCompletion_deployment_verbatim:
  assumes "azureOpenAIApiInstanceName c = Some i" and "i \<noteq> []"
    and "azureOpenAIApiDeploymentName c = Some d" and "d \<noteq> []"
  shows "(fst (genAzureChatCompletion c) :: ('b, 'r) js_error + string)
           = Inr (''https://'' @ i @ ''.openai.azure.com/openai/deployments/'' @ d
                  @ ''/chat/completions?api-version='' @ js_template (azureOpenAIApiVersion c))
         \<and> ((fst (genAzureChatCompletion c) :: ('b, 'r) js_error + string)
              = Inr (''https://'' @ i @ ''.openai.azure.com/openai/deployments/''
                     @ sanitizeModelName d
                     @ ''/chat/completions?api-version=''
                     @ js_template (azureOpenAIApiVersion c))
            \<longleftrightarrow> CHR ''.'' \<notin> set d)"
proof -
  have url: "(fst (genAzureChatCompletion c) :: ('b, 'r) js_error + string)
           = Inr (''https://'' @ i @ ''.openai.azure.com/openai/deployments/'' @ d
                  @ ''/chat/completions?api-version='' @ js_template (azureOpenAIApiVersion c))"
    using assms by (simp add: genAzureChatCompletion_def genAzureEndpoint_def Let_def)
  have "(d @ ''/chat/completions?api-version='' @ js_template (azureOpenAIApiVersion c)
          = sanitizeModelName d @ ''/chat/completions?api-version=''
              @ js_template (azureOpenAIApiVersion c))
        \<longleftrightarrow> sanitizeModelName d = d"
    by auto
  with url show ?thesis
    by (simp add: sanitizeModelName_id_iff)
qed

theorem genAzureChatCompletion_deployment_verbatim_witness:
  "fst (genAzureChatCompletion
          \<lparr> azureOpenAIApiKey = Some ''x'', azureOpenAIApiInstanceName = Some ''foo'',
            azureOpenAIApiDeploymentName = Some ''gpt-3.5-turbo'',
            azureOpenAIApiVersion = Some ''2023-05-15'' \<rparr>)
     = (Inr ''https://foo.openai.azure.com/openai/deployments/gpt-3.5-turbo/chat/completions?api-version=2023-05-15''
          :: (json, unit) js_error + string)"
  using genAzureChatCompletion_deployment_verbatim
    [where ?'b = json and ?'r = unit, of "\<lparr> azureOpenAIApiKey = Some ''x'', azureOpenAIApiInstanceName = Some ''foo'',
            azureOpenAIApiDeploymentName = Some ''gpt-3.5-turbo'',
            azureOpenAIApiVersion = Some ''2023-05-15'' \<rparr>" "''foo''" "''gpt-3.5-turbo''"]
  by simp

subsection \<open>getAzureCredentials\<close>

text \<open>C6. \<open>getAzureCredentials\<close> throws if and only if at least one of the four
  environment variables is missing or empty, and what it throws is its configuration
  error; when all four are set to non-empty values it returns the object holding exactly
  those four values.\<close>

theorem getAzureCredentials_spec:
  "((\<exists>e :: ('b, 'r) js_error. fst (getAzureCredentials env) = Inl e) \<longleftrightarrow>
      env ''AZURE_API_KEY'' = None \<or> env ''AZURE_API_KEY'' = Some []
      \<or> env ''AZURE_OPENAI_API_INSTANCE_NAME'' = None
      \<or> env ''AZURE_OPENAI_API_INSTANCE_NAME'' = Some []
      \<or> env ''AZURE_OPENAI_API_DEPLOYMENT_NAME'' = None
      \<or> env ''AZURE_OPENAI_API_DEPLOYMENT_NAME'' = Some []
      \<or> env ''AZURE_OPENAI_API_VERSION'' = None
      \<or> env ''AZURE_OPENAI_API_VERSION'' = Some [])
   \<and> ((\<exists>e :: ('b, 'r) js_error. fst (getAzureCredentials env) = Inl e) \<longrightarrow>
        (fst (getAzureCredentials env) :: ('b, 'r) js_error + AzureCredentials)
          = Inl (Error ''Invalid environment configuration.''))
   \<and> (env ''AZURE_API_KEY'' = Some k \<and> k \<noteq> []
        \<and> env ''AZURE_OPENAI_API_INSTANCE_NAME'' = Some i \<and> i \<noteq> []
        \<and> env ''AZURE_OPENAI_API_DEPLOYMENT_NAME'' = Some d \<and> d \<noteq> []
        \<and> env ''AZURE_OPENAI_API_VERSION'' = Some v \<and> v \<noteq> [] \<longrightarrow>
        (fst (getAzureCredentials env) :: ('b, 'r) js_error + AzureCredentials)
          = Inr \<lparr> azureOpenAIApiKey = Some k, azureOpenAIApiInstanceName = Some i,
                  azureOpenAIApiDeploymentName = Some d, azureOpenAIApiVersion = Some v \<rparr>)"
proof -
  have falsy: "js_falsy x \<longleftrightarrow> x = None \<or> x = Some []" for x
    by (cases x) simp_all
  show ?thesis
    by (auto simp: getAzureCredentials_def Let_def falsy)
qed

theorem getAzureCredentials_spec_witness:
  "(fst (getAzureCredentials example_env) :: (json, unit) js_error + AzureCredentials)
     = Inr \<lparr> azureOpenAIApiKey = Some ''x'', azureOpenAIApiInstanceName = Some ''foo'',
             azureOpenAIApiDeploymentName = Some ''bar'',
             azureOpenAIApiVersion = Some ''2023-05-15'' \<rparr>
   \<and> (fst (getAzureCredentials (example_env(''AZURE_OPENAI_API_VERSION'' := None)))
        :: (json, unit) js_error + AzureCredentials)
     = Inl (Error ''Invalid environment configuration.'')"
  using
    getAzureCredentials_spec
      [where ?'b = json and ?'r = unit,
       of example_env "''x''" "''foo''" "''bar''" "''2023-05-15''"]
    getAzureCredentials_spec
      [where ?'b = json and ?'r = unit,
       of "example_env(''AZURE_OPENAI_API_VERSION'' := None)"]
  by (simp add: example_env_def)

subsection \<open>sendChatMessage\<close>

text \<open>C3. In every environment in which one of the four variables is missing or empty,
  the promise \<open>sendChatMessage\<close> returns is already rejected with the configuration error
  when the call returns: the failure arises before the \<open>await\<close>, and the function is not
  waiting for any request, so no HTTP POST has been issued.\<close>

theorem sendChatMessage_invalid_env:
  assumes "js_falsy (env ''AZURE_API_KEY'')
           \<or> js_falsy (env ''AZURE_OPENAI_API_INSTANCE_NAME'')
           \<or> js_falsy (env ''AZURE_OPENAI_API_DEPLOYMENT_NAME'')
           \<or> js_falsy (env ''AZURE_OPENAI_API_VERSION'')"
  shows "(fst (sendChatMessage env message) :: ('m, 'b, 'r) promise)
           = Settled (Inl (Error ''Invalid environment configuration.''))
         \<and> (\<nexists>call k.
               (fst (sendChatMessage env message) :: ('m, 'b, 'r) promise) = Awaiting call k)"
  using assms by (auto simp: sendChatMessage_def getAzureCredentials_def Let_def)

theorem sendChatMessage_invalid_env_witness:
  "js_falsy ((example_env(''AZURE_API_KEY'' := None)) ''AZURE_API_KEY'')
   \<and> fst (sendChatMessage (example_env(''AZURE_API_KEY'' := None)) example_message)
       = (Settled (Inl (Error ''Invalid environment configuration.''))
            :: (json, json, unit) promise)
   \<and> fst (sendChatMessage (example_env(''AZURE_OPENAI_API_DEPLOYMENT_NAME'' \<mapsto> [])) example_message)
       = (Settled (Inl (Error ''Invalid environment configuration.''))
            :: (json, json, unit) promise)"
  using
    sendChatMessage_invalid_env
      [where ?'b = json and ?'r = unit,
       of "example_env(''AZURE_API_KEY'' := None)" example_message]
    sendChatMessage_invalid_env
      [where ?'b = json and ?'r = unit,
       of "example_env(''AZURE_OPENAI_API_DEPLOYMENT_NAME'' \<mapsto> [])" example_message]
  by (simp add: example_env_def)

text \<open>C9. In every environment with the four variables set to non-empty values, and for
  every message, \<open>sendChatMessage\<close> issues one HTTP POST and waits for it: the URL is the
  one \<open>genAzureChatCompletion\<close> returns for the credentials \<open>getAzureCredentials\<close> loaded,
  the headers are \<open>Content-Type: application/json\<close> and \<open>Authorization: Bearer\<close> followed
  by the loaded API key, and the body is the message as the caller gave it. What follows
  the \<open>await\<close> issues no request: it settles the promise.\<close>

theorem sendChatMessage_post:
  assumes "env ''AZURE_API_KEY'' = Some key" and "key \<noteq> []"
    and "env ''AZURE_OPENAI_API_INSTANCE_NAME'' = Some inst" and "inst \<noteq> []"
    and "env ''AZURE_OPENAI_API_DEPLOYMENT_NAME'' = Some dep" and "dep \<noteq> []"
    and "env ''AZURE_OPENAI_API_VERSION'' = Some ver" and "ver \<noteq> []"
  shows "\<exists>credentials endpoint.
           (fst (getAzureCredentials env) :: ('b, 'r) js_error + AzureCredentials)
             = Inr credentials
         \<and> azureOpenAIApiKey credentials = Some key
         \<and> (fst (genAzureChatCompletion credentials) :: ('b, 'r) js_error + string)
             = Inr endpoint
         \<and> (fst (sendChatMessage env message) :: ('m, 'b, 'r) promise)
             = Awaiting
                 (Post endpoint message
                    [(''Content-Type'', ''application/json''),
                     (''Authorization'', ''Bearer '' @ key)])
                 sendChatMessage_resume"
  using assms
  by (simp add: sendChatMessage_def getAzureCredentials_def genAzureChatCompletion_def
      genAzureEndpoint_def Let_def)

theorem sendChatMessage_post_witness:
  "fst (sendChatMessage example_env example_message)
     = (Awaiting
          (Post ''https://foo.openai.azure.com/openai/deployments/bar/chat/completions?api-version=2023-05-15''
             example_message
             [(''Content-Type'', ''application/json''), (''Authorization'', ''Bearer x'')])
          sendChatMessage_resume :: (json, json, unit) promise)"
  using sendChatMessage_post
    [where ?'b = json and ?'r = unit,
     of example_env "''x''" "''foo''" "''bar''" "''2023-05-15''" example_message]
  by (simp add: example_env_def getAzureCredentials_def genAzureChatCompletion_def
      genAzureEndpoint_def Let_def)

text \<open>C1. Whenever \<open>sendChatMessage\<close> has issued its POST and the HTTP client fulfils it
  with a response, which is what the client does with a 2xx response, the promise is
  fulfilled with exactly the decoded body \<open>response.data\<close> of that response.\<close>

theorem sendChatMessage_success:
  assumes "fst (sendChatMessage env message) = Awaiting call k"
  shows "fst (k (Inr response)) = Inr (data response)"
  using assms
  by (auto simp: sendChatMessage_def split: prod.splits sum.splits)

theorem sendChatMessage_success_witness:
  "fst (sendChatMessage example_env example_message)
     = (Awaiting
          (Post ''https://foo.openai.azure.com/openai/deployments/bar/chat/completions?api-version=2023-05-15''
             example_message
             [(''Content-Type'', ''application/json''), (''Authorization'', ''Bearer x'')])
          sendChatMessage_resume :: (json, json, unit) promise)
   \<and> fst (sendChatMessage_resume
            (Inr \<lparr> data = example_body, status = 200,
                    headers = [(''content-type'', ''application/json'')] \<rparr>))
       = (Inr example_body :: (json, unit) js_error + json)"
proof -
  have issued: "fst (sendChatMessage example_env example_message)
     = (Awaiting
          (Post ''https://foo.openai.azure.com/openai/deployments/bar/chat/completions?api-version=2023-05-15''
             example_message
             [(''Content-Type'', ''application/json''), (''Authorization'', ''Bearer x'')])
          sendChatMessage_resume :: (json, json, unit) promise)"
    by (simp add: example_env_def sendChatMessage_def getAzureCredentials_def
        genAzureChatCompletion_def genAzureEndpoint_def Let_def)
  from sendChatMessage_success [OF issued] issued show ?thesis
    by simp
qed

text \<open>C2. Whenever \<open>sendChatMessage\<close> has issued its POST and the HTTP client rejects
  it, the promise is rejected with the client's error object itself, unchanged. So an
  error for a response received carries that response (its status, headers and body), an
  error for no response carries its message and no response, and the two stay
  different.\<close>

theorem sendChatMessage_failure:
  assumes "fst (sendChatMessage env message) = Awaiting call k"
  shows "fst (k (Inl error)) = Inl error
       \<and> fst (k (Inl (AxiosError m (Some r) q))) = Inl (AxiosError m (Some r) q)
       \<and> fst (k (Inl (AxiosError m None q))) = Inl (AxiosError m None q)
       \<and> fst (k (Inl (AxiosError m (Some r) q))) \<noteq> fst (k (Inl (AxiosError m' None q')))"
  using assms
  by (auto simp: sendChatMessage_def split: prod.splits sum.splits)

theorem sendChatMessage_failure_witness:
  "fst (sendChatMessage example_env example_message)
     = (Awaiting
          (Post ''https://foo.openai.azure.com/openai/deployments/bar/chat/completions?api-version=2023-05-15''
             example_message
             [(''Content-Type'', ''application/json''), (''Authorization'', ''Bearer x'')])
          sendChatMessage_resume :: (json, json, unit) promise)
   \<and> fst (sendChatMessage_resume
            (Inl (AxiosError ''Request failed with status code 401''
                    (Some \<lparr> data = JObject [(''error'', JString ''Unauthorized'')],
                            status = 401, headers = [] \<rparr>)
                    (Some ()))))
       = (Inl (AxiosError ''Request failed with status code 401''
                 (Some \<lparr> data = JObject [(''error'', JString ''Unauthorized'')],
                         status = 401, headers = [] \<rparr>)
                 (Some ())) :: (json, unit) js_error + json)
   \<and> fst (sendChatMessage_resume (Inl (AxiosError ''connect ECONNREFUSED'' None (Some ()))))
       = (Inl (AxiosError ''connect ECONNREFUSED'' None (Some ()))
            :: (json, unit) js_error + json)"
proof -
  have issued: "fst (sendChatMessage example_env example_message)
     = (Awaiting
          (Post ''https://foo.openai.azure.com/openai/deployments/bar/chat/completions?api-version=2023-05-15''
             example_message
             [(''Content-Type'', ''application/json''), (''Authorization'', ''Bearer x'')])
          sendChatMessage_resume :: (json, json, unit) promise)"
    by (simp add: example_env_def sendChatMessage_def getAzureCredentials_def
        genAzureChatCompletion_def genAzureEndpoint_def Let_def)
  from sendChatMessage_failure [OF issued] issued show ?thesis
    by simp
qed

end
